theory Spec2Isabelle
  imports Main "HOL-Library.AList" "HOL-Library.Word"
begin

section \<open>Data model\<close>

text \<open>
  The service is one Go file, \<^verbatim>\<open>src/main.go\<close>: five echo handlers over one DynamoDB
  table. Go's \<^verbatim>\<open>int\<close> is taken as the 64-bit signed integer of the usual server
  platforms.
\<close>

type_synonym go_int = "64 word"

text \<open>\<^verbatim>\<open>type User struct { ID string; Name string; Age int }\<close> (lines 16-20).\<close>

record User =
  ID :: string
  Name :: string
  Age :: go_int

text \<open>
  A Go slice is either nil or holds elements; \<^verbatim>\<open>append\<close> on a nil slice gives a
  slice that is not nil.
\<close>

datatype 'a slice = NilSlice | Slice "'a list"

fun append_slice :: "'a slice \<Rightarrow> 'a \<Rightarrow> 'a slice" where
  "append_slice NilSlice x = Slice [x]"
| "append_slice (Slice xs) x = Slice (xs @ [x])"

subsection \<open>JSON values written by \<^verbatim>\<open>c.JSON\<close>\<close>

text \<open>
  \<^verbatim>\<open>c.JSON(code, v)\<close> writes \<^verbatim>\<open>encoding/json\<close>'s encoding of \<^verbatim>\<open>v\<close>. A struct
  encodes as an object with one member per field, named by the \<^verbatim>\<open>json\<close> tag and in
  field order; a slice encodes as an array, except that a nil slice encodes as the JSON
  value \<^verbatim>\<open>null\<close>.
\<close>

datatype json =
    JNull
  | JNumber int
  | JString string
  | JArray "json list"
  | JObject "(string \<times> json) list"

definition marshalUser :: "User \<Rightarrow> json" where
  "marshalUser u =
     JObject [(''id'', JString (ID u)), (''name'', JString (Name u)),
              (''age'', JNumber (sint (Age u)))]"

definition marshalUsers :: "User slice \<Rightarrow> json" where
  "marshalUsers us = (case us of NilSlice \<Rightarrow> JNull | Slice xs \<Rightarrow> JArray (map marshalUser xs))"

subsection \<open>\<^verbatim>\<open>fmt.Sprintf("%d", n)\<close>\<close>

definition digit :: "nat \<Rightarrow> char" where
  "digit d = ''0123456789'' ! d"

function showNat :: "nat \<Rightarrow> string" where
  "showNat n = (if n < 10 then [digit n] else showNat (n div 10) @ [digit (n mod 10)])"
  by pat_completeness auto
termination
  by (relation "measure id") auto

declare showNat.simps [simp del]

definition Sprintf_d :: "go_int \<Rightarrow> string" where
  "Sprintf_d x =
     (if sint x < 0 then CHR ''-'' # showNat (nat (- sint x)) else showNat (nat (sint x)))"

section \<open>The table store\<close>

text \<open>
  \<^verbatim>\<open>dynamodb.AttributeValue\<close> has one pointer field per attribute form; the handlers
  use \<^verbatim>\<open>S\<close> (string) and \<^verbatim>\<open>N\<close> (number, carried as a string). A nil pointer is
  \<open>None\<close>. \<^verbatim>\<open>BOOL\<close> stands for the forms the handlers never read.
\<close>

record AttributeValue =
  S :: "string option"
  N :: "string option"
  BOOL :: "bool option"

definition attrS :: "string \<Rightarrow> AttributeValue" where
  "attrS s = \<lparr>S = Some s, N = None, BOOL = None\<rparr>"

definition attrN :: "string \<Rightarrow> AttributeValue" where
  "attrN s = \<lparr>S = None, N = Some s, BOOL = None\<rparr>"

text \<open>
  An item is a \<^verbatim>\<open>map[string]*dynamodb.AttributeValue\<close>: looking up a missing
  attribute gives the nil pointer, here \<open>map_of it a = None\<close>.
\<close>

type_synonym item = "(string \<times> AttributeValue) list"

datatype store_call =
    ScanCall
  | GetItemCall item
  | PutItemCall item
  | UpdateItemCall item "(string \<times> AttributeValue) list"
  | DeleteItemCall item

text \<open>
  What a request can observe and change: the table \<^verbatim>\<open>users\<close> (items by the string
  value of their key attribute \<^verbatim>\<open>id\<close>), the store operations issued so far, and the
  lines written with the \<^verbatim>\<open>log\<close> package.
\<close>

record world =
  table :: "(string \<times> item) list"
  calls :: "store_call list"
  logged :: "string list"

text \<open>
  What the surroundings decide while one request is handled: whether
  \<^verbatim>\<open>session.NewSession\<close> returns an error, and whether the store call does (network,
  permission, throttling). The strings are the errors' details.
\<close>

record env =
  session_err :: "string option"
  store_err :: "string option"

text \<open>The client handle; it carries the failure its call is going to meet, if any.\<close>

datatype DynamoDB = DynamoDB "string option"

text \<open>
  \<^verbatim>\<open>getDynamoDBClient\<close> (lines 41-50). \<^verbatim>\<open>log.Fatal\<close> prints its operands as
  \<^verbatim>\<open>fmt.Sprint\<close> does (no space after a string operand) and exits the process:
  \<open>Inl\<close> carries the line logged before the exit.
\<close>

definition getDynamoDBClient :: "env \<Rightarrow> string + DynamoDB" where
  "getDynamoDBClient e =
     (case session_err e of
        Some err \<Rightarrow> Inl (''Failed to create AWS session:'' @ err)
      | None \<Rightarrow> Inr (DynamoDB (store_err e)))"

definition keyOf :: "item \<Rightarrow> string option" where
  "keyOf k = (case map_of k ''id'' of None \<Rightarrow> None | Some av \<Rightarrow> S av)"

text \<open>
  The five operations of the store, as DynamoDB documents them: a failing call returns
  its error and leaves the table alone; \<^verbatim>\<open>GetItem\<close> of an absent key returns no item;
  \<^verbatim>\<open>PutItem\<close> replaces the whole item under its key; \<^verbatim>\<open>UpdateItem\<close> sets the given
  attributes of the item under the key and first creates the item, with its key
  attribute only, when there is none; \<^verbatim>\<open>DeleteItem\<close> of an absent key succeeds.
  Every call is recorded in \<open>calls\<close>.
\<close>

definition Scan :: "DynamoDB \<Rightarrow> world \<Rightarrow> (string + item list) \<times> world" where
  "Scan svc w =
     (let w' = w\<lparr>calls := calls w @ [ScanCall]\<rparr> in
      case svc of
        DynamoDB (Some err) \<Rightarrow> (Inl err, w')
      | DynamoDB None \<Rightarrow> (Inr (map snd (table w)), w'))"

definition GetItem :: "DynamoDB \<Rightarrow> item \<Rightarrow> world \<Rightarrow> (string + item option) \<times> world" where
  "GetItem svc k w =
     (let w' = w\<lparr>calls := calls w @ [GetItemCall k]\<rparr> in
      case svc of
        DynamoDB (Some err) \<Rightarrow> (Inl err, w')
      | DynamoDB None \<Rightarrow>
          (case keyOf k of
             None \<Rightarrow> (Inl ''ValidationException'', w')
           | Some i \<Rightarrow> (Inr (map_of (table w) i), w')))"

definition PutItem :: "DynamoDB \<Rightarrow> item \<Rightarrow> world \<Rightarrow> (string + unit) \<times> world" where
  "PutItem svc it w =
     (let w' = w\<lparr>calls := calls w @ [PutItemCall it]\<rparr> in
      case svc of
        DynamoDB (Some err) \<Rightarrow> (Inl err, w')
      | DynamoDB None \<Rightarrow>
          (case keyOf it of
             None \<Rightarrow> (Inl ''ValidationException'', w')
           | Some i \<Rightarrow> (Inr (), w'\<lparr>table := AList.update i it (table w)\<rparr>)))"

fun setAttrs :: "(string \<times> AttributeValue) list \<Rightarrow> item \<Rightarrow> item" where
  "setAttrs [] it = it"
| "setAttrs ((a, v) # rest) it = setAttrs rest (AList.update a v it)"

definition UpdateItem ::
  "DynamoDB \<Rightarrow> item \<Rightarrow> (string \<times> AttributeValue) list \<Rightarrow> world \<Rightarrow> (string + unit) \<times> world" where
  "UpdateItem svc k sets w =
     (let w' = w\<lparr>calls := calls w @ [UpdateItemCall k sets]\<rparr> in
      case svc of
        DynamoDB (Some err) \<Rightarrow> (Inl err, w')
      | DynamoDB None \<Rightarrow>
          (case keyOf k of
             None \<Rightarrow> (Inl ''ValidationException'', w')
           | Some i \<Rightarrow>
               (let old = (case map_of (table w) i of None \<Rightarrow> k | Some it \<Rightarrow> it) in
                (Inr (), w'\<lparr>table := AList.update i (setAttrs sets old) (table w)\<rparr>))))"

definition DeleteItem :: "DynamoDB \<Rightarrow> item \<Rightarrow> world \<Rightarrow> (string + unit) \<times> world" where
  "DeleteItem svc k w =
     (let w' = w\<lparr>calls := calls w @ [DeleteItemCall k]\<rparr> in
      case svc of
        DynamoDB (Some err) \<Rightarrow> (Inl err, w')
      | DynamoDB None \<Rightarrow>
          (case keyOf k of
             None \<Rightarrow> (Inl ''ValidationException'', w')
           | Some i \<Rightarrow> (Inr (), w'\<lparr>table := AList.delete i (table w)\<rparr>)))"

section \<open>The handlers\<close>

text \<open>
  What a handler does with the request: it writes a JSON response (\<^verbatim>\<open>c.JSON\<close>), writes
  a response without a body (\<^verbatim>\<open>c.NoContent\<close>), returns an \<^verbatim>\<open>echo.HTTPError\<close>,
  panics, or ends the process (\<^verbatim>\<open>log.Fatal\<close>).
\<close>

datatype outcome =
    JSON nat json
  | NoContent nat
  | HTTPError nat string
  | Panic
  | Fatal

text \<open>
  The part of \<^verbatim>\<open>echo.Context\<close> the handlers read: \<^verbatim>\<open>c.Param("id")\<close>, and what
  \<^verbatim>\<open>c.Bind(user)\<close> does to a fresh \<^verbatim>\<open>User\<close>: an error (\<open>Inl\<close>), or the decoded
  request body (\<open>Inr\<close>).
\<close>

record Context =
  Param_id :: string
  Bind :: "string + User"

definition println :: "string \<Rightarrow> string \<Rightarrow> world \<Rightarrow> world" where
  "println msg err w = w\<lparr>logged := logged w @ [msg @ '' '' @ err]\<rparr>"

definition deref_S :: "AttributeValue option \<Rightarrow> string option" where
  "deref_S p = (case p of None \<Rightarrow> None | Some av \<Rightarrow> S av)"

definition deref_N :: "AttributeValue option \<Rightarrow> string option" where
  "deref_N p = (case p of None \<Rightarrow> None | Some av \<Rightarrow> N av)"

text \<open>
  The struct literal of lines 68-72 and 104-109, fields evaluated in order;
  \<open>None\<close> is the nil-pointer panic of \<^verbatim>\<open>*item["id"].S\<close>, \<^verbatim>\<open>*item["name"].S\<close> or
  \<^verbatim>\<open>*item["age"].N\<close>. The age is written \<^verbatim>\<open>int(*item["age"].N)\<close>, where
  \<^verbatim>\<open>N\<close> is a \<^verbatim>\<open>*string\<close>: Go defines no conversion from a string to \<^verbatim>\<open>int\<close>, so
  the source fixes no value for it. The conversion is the parameter \<open>toInt\<close>, about
  which nothing is assumed.
\<close>

definition userOfItem :: "(string \<Rightarrow> go_int) \<Rightarrow> item \<Rightarrow> User option" where
  "userOfItem toInt it =
     (case deref_S (map_of it ''id'') of
        None \<Rightarrow> None
      | Some i \<Rightarrow>
          (case deref_S (map_of it ''name'') of
             None \<Rightarrow> None
           | Some n \<Rightarrow>
               (case deref_N (map_of it ''age'') of
                  None \<Rightarrow> None
                | Some a \<Rightarrow> Some \<lparr>ID = i, Name = n, Age = toInt a\<rparr>)))"

text \<open>The loop of lines 67-74 over \<^verbatim>\<open>result.Items\<close>; \<open>None\<close> is a panic.\<close>

fun usersLoop :: "(string \<Rightarrow> go_int) \<Rightarrow> item list \<Rightarrow> User slice \<Rightarrow> User slice option" where
  "usersLoop toInt [] users = Some users"
| "usersLoop toInt (it # rest) users =
     (case userOfItem toInt it of
        None \<Rightarrow> None
      | Some u \<Rightarrow> usersLoop toInt rest (append_slice users u))"

text \<open>\<^verbatim>\<open>getUsers\<close> (lines 53-77).\<close>

definition getUsers :: "(string \<Rightarrow> go_int) \<Rightarrow> env \<Rightarrow> Context \<Rightarrow> world \<Rightarrow> outcome \<times> world" where
  "getUsers toInt e c w =
     (case getDynamoDBClient e of
        Inl line \<Rightarrow> (Fatal, w\<lparr>logged := logged w @ [line]\<rparr>)
      | Inr svc \<Rightarrow>
          (case Scan svc w of
             (Inl err, w') \<Rightarrow>
               (HTTPError 500 ''Failed to retrieve users'',
                println ''Failed to retrieve users:'' err w')
           | (Inr items, w') \<Rightarrow>
               (case usersLoop toInt items NilSlice of
                  None \<Rightarrow> (Panic, w')
                | Some users \<Rightarrow> (JSON 200 (marshalUsers users), w'))))"

text \<open>\<^verbatim>\<open>getUser\<close> (lines 80-112).\<close>

definition getUser :: "(string \<Rightarrow> go_int) \<Rightarrow> env \<Rightarrow> Context \<Rightarrow> world \<Rightarrow> outcome \<times> world" where
  "getUser toInt e c w =
     (case getDynamoDBClient e of
        Inl line \<Rightarrow> (Fatal, w\<lparr>logged := logged w @ [line]\<rparr>)
      | Inr svc \<Rightarrow>
          (case GetItem svc [(''id'', attrS (Param_id c))] w of
             (Inl err, w') \<Rightarrow>
               (HTTPError 500 ''Failed to retrieve user'',
                println ''Failed to retrieve user:'' err w')
           | (Inr None, w') \<Rightarrow> (HTTPError 404 ''User not found'', w')
           | (Inr (Some it), w') \<Rightarrow>
               (case userOfItem toInt it of
                  None \<Rightarrow> (Panic, w')
                | Some user \<Rightarrow> (JSON 200 (marshalUser user), w'))))"

text \<open>\<^verbatim>\<open>createUser\<close> (lines 115-145).\<close>

definition createUser :: "env \<Rightarrow> Context \<Rightarrow> world \<Rightarrow> outcome \<times> world" where
  "createUser e c w =
     (case getDynamoDBClient e of
        Inl line \<Rightarrow> (Fatal, w\<lparr>logged := logged w @ [line]\<rparr>)
      | Inr svc \<Rightarrow>
          (case Bind c of
             Inl err \<Rightarrow> (HTTPError 400 ''Invalid request payload'', w)
           | Inr user \<Rightarrow>
               (case PutItem svc
                       [(''id'', attrS (ID user)), (''name'', attrS (Name user)),
                        (''age'', attrN (Sprintf_d (Age user)))] w of
                  (Inl err, w') \<Rightarrow>
                    (HTTPError 500 ''Failed to create user'',
                     println ''Failed to create user:'' err w')
                | (Inr _, w') \<Rightarrow> (JSON 201 (marshalUser user), w'))))"

text \<open>
  \<^verbatim>\<open>updateUser\<close> (lines 148-186). The update expression
  \<^verbatim>\<open>set #n = :n, #a = :a\<close> with its name and value tables is kept in resolved form:
  the attributes \<^verbatim>\<open>name\<close> and \<^verbatim>\<open>age\<close> and the values they are set to.
\<close>

definition updateUser :: "env \<Rightarrow> Context \<Rightarrow> world \<Rightarrow> outcome \<times> world" where
  "updateUser e c w =
     (case getDynamoDBClient e of
        Inl line \<Rightarrow> (Fatal, w\<lparr>logged := logged w @ [line]\<rparr>)
      | Inr svc \<Rightarrow>
          (let id = Param_id c in
           case Bind c of
             Inl err \<Rightarrow> (HTTPError 400 ''Invalid request payload'', w)
           | Inr user \<Rightarrow>
               (case UpdateItem svc [(''id'', attrS id)]
                       [(''name'', attrS (Name user)),
                        (''age'', attrN (Sprintf_d (Age user)))] w of
                  (Inl err, w') \<Rightarrow>
                    (HTTPError 500 ''Failed to update user'',
                     println ''Failed to update user:'' err w')
                | (Inr _, w') \<Rightarrow> (JSON 200 (marshalUser user), w'))))"

text \<open>\<^verbatim>\<open>deleteUser\<close> (lines 189-210).\<close>

definition deleteUser :: "env \<Rightarrow> Context \<Rightarrow> world \<Rightarrow> outcome \<times> world" where
  "deleteUser e c w =
     (case getDynamoDBClient e of
        Inl line \<Rightarrow> (Fatal, w\<lparr>logged := logged w @ [line]\<rparr>)
      | Inr svc \<Rightarrow>
          (case DeleteItem svc [(''id'', attrS (Param_id c))] w of
             (Inl err, w') \<Rightarrow>
               (HTTPError 500 ''Failed to delete user'',
                println ''Failed to delete user:'' err w')
           | (Inr _, w') \<Rightarrow> (NoContent 204, w')))"

section \<open>The server\<close>

text \<open>The five routes of \<^verbatim>\<open>main\<close> (lines 30-34).\<close>

datatype route = GET_users | GET_users_id | POST_users | PUT_users_id | DELETE_users_id

definition routes ::
  "(string \<Rightarrow> go_int) \<Rightarrow> route \<Rightarrow> env \<Rightarrow> Context \<Rightarrow> world \<Rightarrow> outcome \<times> world" where
  "routes toInt r =
     (case r of
        GET_users \<Rightarrow> getUsers toInt
      | GET_users_id \<Rightarrow> getUser toInt
      | POST_users \<Rightarrow> createUser
      | PUT_users_id \<Rightarrow> updateUser
      | DELETE_users_id \<Rightarrow> deleteUser)"

text \<open>
  \<^verbatim>\<open>middleware.Recover()\<close> (line 27) catches a panic of the handler and hands it to
  echo's error handler as an error that is not an \<^verbatim>\<open>HTTPError\<close>, which that handler
  reports as 500 with the status text. It cannot catch the exit of \<^verbatim>\<open>log.Fatal\<close>.
\<close>

definition Recover :: "outcome \<times> world \<Rightarrow> outcome \<times> world" where
  "Recover r =
     (case r of
        (Panic, w) \<Rightarrow> (HTTPError 500 ''Internal Server Error'', w)
      | _ \<Rightarrow> r)"

record response =
  status :: nat
  body :: "json option"

text \<open>
  The response the client receives: echo's default error handler sends the code of an
  \<^verbatim>\<open>HTTPError\<close> with the body \<^verbatim>\<open>{"message": ...}\<close>. A process that has exited
  sends nothing.
\<close>

definition respond :: "outcome \<Rightarrow> response option" where
  "respond out =
     (case out of
        JSON code j \<Rightarrow> Some \<lparr>status = code, body = Some j\<rparr>
      | NoContent code \<Rightarrow> Some \<lparr>status = code, body = None\<rparr>
      | HTTPError code msg \<Rightarrow>
          Some \<lparr>status = code, body = Some (JObject [(''message'', JString msg)])\<rparr>
      | Panic \<Rightarrow> None
      | Fatal \<Rightarrow> None)"

text \<open>
  The process: \<^verbatim>\<open>main\<close> registers the middleware and the routes and starts
  listening; it does not call \<^verbatim>\<open>getDynamoDBClient\<close>. The process is alive until a
  handler ends it.
\<close>

record server =
  state :: world
  alive :: bool

definition main :: "world \<Rightarrow> server" where
  "main w = \<lparr>state = w, alive = True\<rparr>"

text \<open>One request: nothing is handled once the process has exited.\<close>

definition serve ::
  "(string \<Rightarrow> go_int) \<Rightarrow> env \<Rightarrow> route \<Rightarrow> Context \<Rightarrow> server \<Rightarrow> response option \<times> server" where
  "serve toInt e r c srv =
     (if alive srv then
        (case Recover (routes toInt r e c (state srv)) of
           (out, w') \<Rightarrow> (respond out, \<lparr>state = w', alive = (out \<noteq> Fatal)\<rparr>))
      else (None, srv))"

fun run ::
  "(string \<Rightarrow> go_int) \<Rightarrow> (env \<times> route \<times> Context) list \<Rightarrow> server \<Rightarrow> response option list \<times> server" where
  "run toInt [] srv = ([], srv)"
| "run toInt ((e, r, c) # rest) srv =
     (case serve toInt e r c srv of
        (resp, srv') \<Rightarrow> (case run toInt rest srv' of (resps, srv'') \<Rightarrow> (resp # resps, srv'')))"

text \<open>
  An item that lacks one of the three attributes the handlers read: \<^verbatim>\<open>id\<close> or
  \<^verbatim>\<open>name\<close> absent or not in string form, \<^verbatim>\<open>age\<close> absent or not in number form.
\<close>

definition lacks :: "item \<Rightarrow> bool" where
  "lacks it =
     ((case map_of it ''id'' of None \<Rightarrow> True | Some av \<Rightarrow> S av = None) \<or>
      (case map_of it ''name'' of None \<Rightarrow> True | Some av \<Rightarrow> S av = None) \<or>
      (case map_of it ''age'' of None \<Rightarrow> True | Some av \<Rightarrow> N av = None))"

text \<open>A table all of whose items hold a user record.\<close>

definition records :: "world \<Rightarrow> bool" where
  "records w = list_all (\<lambda>(k, it). \<not> lacks it) (table w)"

section \<open>Auxiliary facts\<close>

lemma keyOf_attrS: "keyOf ((''id'', attrS i) # rest) = Some i"
  by (simp add: keyOf_def attrS_def)

lemma userOfItem_record:
  "userOfItem toInt [(''id'', attrS i), (''name'', attrS n), (''age'', attrN a)]
     = Some \<lparr>ID = i, Name = n, Age = toInt a\<rparr>"
  by (simp add: userOfItem_def deref_S_def deref_N_def attrS_def attrN_def)

lemmas server_defs = serve_def routes_def Recover_def respond_def getDynamoDBClient_def
  keyOf_attrS println_def Let_def

lemma Sprintf_d_30: "Sprintf_d 30 = ''30''"
  by (simp add: Sprintf_d_def showNat.simps digit_def)

text \<open>A process that has exited handles nothing any more.\<close>

lemma run_exited:
  "\<not> alive srv \<Longrightarrow> run toInt reqs srv = (replicate (length reqs) None, srv)"
  by (induction reqs) (auto simp: serve_def)

text \<open>Every handler constructs the client first, so its failure looks the same on all routes.\<close>

lemma serve_session_failure:
  assumes "alive srv" and "session_err e = Some err"
  shows "serve toInt e r c srv =
     (None,
      \<lparr>state = (state srv)
         \<lparr>logged := logged (state srv) @ [''Failed to create AWS session:'' @ err]\<rparr>,
       alive = False\<rparr>)"
  using assms
  by (cases r)
    (simp_all add: server_defs getUsers_def getUser_def createUser_def updateUser_def
      deleteUser_def)

text \<open>The struct literal panics on an item that lacks an attribute, and so does the loop.\<close>

lemma userOfItem_lacks: "lacks it \<Longrightarrow> userOfItem toInt it = None"
  by (auto simp: lacks_def userOfItem_def deref_S_def deref_N_def split: option.splits)

lemma usersLoop_lacks:
  "it \<in> set items \<Longrightarrow> lacks it \<Longrightarrow> usersLoop toInt items acc = None"
  by (induction items arbitrary: acc) (auto simp: userOfItem_lacks split: option.splits)

section \<open>Create followed by Get\<close>

text \<open>
  For any decoded body and any table, with the client constructed and both store calls
  succeeding: Create answers 201 with the body, and Get on the body's id answers 200 with
  the id and the name of the body. The age of the answer is what the conversion of line
  108 makes of the decimal string that Create stored.
\<close>

lemma create_then_get:
  "fst (run toInt
     [(\<lparr>session_err = None, store_err = None\<rparr>, POST_users,
         \<lparr>Param_id = p, Bind = Inr user\<rparr>),
      (\<lparr>session_err = None, store_err = None\<rparr>, GET_users_id,
         \<lparr>Param_id = ID user, Bind = b\<rparr>)]
     \<lparr>state = w, alive = True\<rparr>)
   = [Some \<lparr>status = 201, body = Some (marshalUser user)\<rparr>,
      Some \<lparr>status = 200,
            body = Some (marshalUser
              \<lparr>ID = ID user, Name = Name user, Age = toInt (Sprintf_d (Age user))\<rparr>)\<rparr>]"
  by (simp add: server_defs createUser_def getUser_def PutItem_def GetItem_def
      userOfItem_record AList.update_conv')

text \<open>
  C1. The claim: Create with a body \<^verbatim>\<open>{id,name,age}\<close> followed by Get on the same id
  returns 200 with a record equal to the body, the age being parsed back from its
  decimal string. Evaluated on the body \<^verbatim>\<open>{"id":"1","name":"Alice","age":30}\<close> and an
  empty table: Create answers 201 and stores the age as the string \<^verbatim>\<open>30\<close>; Get
  answers 200 with the id and the name of the body, and with the age that the conversion
  \<^verbatim>\<open>int(*result.Item["age"].N)\<close> of line 108 makes of that string. That conversion
  is no decimal parse, so the source does not give the age 30 back.
\<close>

theorem create_then_get_Alice:
  "fst (run toInt
     [(\<lparr>session_err = None, store_err = None\<rparr>, POST_users,
         \<lparr>Param_id = '''', Bind = Inr \<lparr>ID = ''1'', Name = ''Alice'', Age = 30\<rparr>\<rparr>),
      (\<lparr>session_err = None, store_err = None\<rparr>, GET_users_id,
         \<lparr>Param_id = ''1'', Bind = Inl ''''\<rparr>)]
     (main \<lparr>table = [], calls = [], logged = []\<rparr>))
   = [Some \<lparr>status = 201, body = Some (marshalUser \<lparr>ID = ''1'', Name = ''Alice'', Age = 30\<rparr>)\<rparr>,
      Some \<lparr>status = 200,
            body = Some (marshalUser \<lparr>ID = ''1'', Name = ''Alice'', Age = toInt ''30''\<rparr>)\<rparr>]"
  by (simp add: server_defs main_def createUser_def getUser_def PutItem_def GetItem_def
      userOfItem_record Sprintf_d_30)

section \<open>List on an empty table\<close>

text \<open>
  C2. The claim: when the scan succeeds and returns no records, List answers 200 with an
  empty JSON array. Evaluated on an empty table: \<^verbatim>\<open>users\<close> is declared by
  \<^verbatim>\<open>var users []User\<close> and never appended to, so it is still the nil slice when
  \<^verbatim>\<open>c.JSON\<close> encodes it, and the body is \<^verbatim>\<open>null\<close>, not \<^verbatim>\<open>[]\<close>.
\<close>

theorem getUsers_no_records:
  "fst (serve toInt \<lparr>session_err = None, store_err = None\<rparr> GET_users c
          (main \<lparr>table = [], calls = cs, logged = ls\<rparr>))
     = Some \<lparr>status = 200, body = Some JNull\<rparr>
   \<and> JNull \<noteq> JArray []"
  by (simp add: server_defs main_def getUsers_def Scan_def marshalUsers_def)

section \<open>Update\<close>

text \<open>
  C3, as stated: the response of Update is the echoed record for the path id. It is not:
  \<^verbatim>\<open>PUT /users/1\<close> with the body \<^verbatim>\<open>{"id":"2","name":"Bob","age":5}\<close> is answered
  with the body's own id \<^verbatim>\<open>2\<close>, since \<^verbatim>\<open>updateUser\<close> echoes the decoded
  \<^verbatim>\<open>user\<close> and never assigns the path id to it.
\<close>

theorem updateUser_echo_counterexample:
  "fst (serve (\<lambda>_. 0) \<lparr>session_err = None, store_err = None\<rparr> PUT_users_id
          \<lparr>Param_id = ''1'', Bind = Inr \<lparr>ID = ''2'', Name = ''Bob'', Age = 5\<rparr>\<rparr>
          (main \<lparr>table = [], calls = [], logged = []\<rparr>))
     = Some \<lparr>status = 200,
             body = Some (JObject [(''id'', JString ''2''), (''name'', JString ''Bob''),
                                   (''age'', JNumber 5)])\<rparr>
   \<and> JString ''2'' \<noteq> JString ''1''"
  by (simp add: server_defs main_def updateUser_def UpdateItem_def marshalUser_def)

text \<open>
  C3, amended: for every Update with a decodable body, with the client constructed and
  the store call succeeding, one \<^verbatim>\<open>UpdateItem\<close> is issued, keyed by the path id and
  setting \<^verbatim>\<open>name\<close> and \<^verbatim>\<open>age\<close> from the body; the item under the path id is
  the old one (or a new one holding the key) with these two attributes set; the response
  is 200 with the decoded body echoed unchanged, its own id included. The id of the body
  has no effect on the store: with any other id in the body the server ends in the same
  state.
\<close>

theorem updateUser_keyed_by_path_id:
  assumes "alive srv" and "session_err e = None" and "store_err e = None"
    and "Bind c = Inr user"
  shows "serve toInt e PUT_users_id c srv =
     (Some \<lparr>status = 200, body = Some (marshalUser user)\<rparr>,
      \<lparr>state = (state srv)
         \<lparr>calls := calls (state srv) @
             [UpdateItemCall [(''id'', attrS (Param_id c))]
                [(''name'', attrS (Name user)), (''age'', attrN (Sprintf_d (Age user)))]],
          table := AList.update (Param_id c)
             (setAttrs [(''name'', attrS (Name user)), (''age'', attrN (Sprintf_d (Age user)))]
                (case map_of (table (state srv)) (Param_id c) of
                   None \<Rightarrow> [(''id'', attrS (Param_id c))] | Some it \<Rightarrow> it))
             (table (state srv))\<rparr>,
       alive = True\<rparr>)
    \<and> snd (serve toInt e PUT_users_id (c\<lparr>Bind := Inr (user\<lparr>ID := other\<rparr>)\<rparr>) srv)
        = snd (serve toInt e PUT_users_id c srv)"
  using assms
  by (simp add: server_defs updateUser_def UpdateItem_def)

theorem updateUser_keyed_by_path_id_witness:
  "alive (main \<lparr>table = [], calls = [], logged = []\<rparr>)
   \<and> session_err \<lparr>session_err = None, store_err = None\<rparr> = None
   \<and> store_err \<lparr>session_err = None, store_err = None\<rparr> = None
   \<and> Bind \<lparr>Param_id = ''1'', Bind = Inr \<lparr>ID = ''2'', Name = ''Bob'', Age = 5\<rparr>\<rparr>
        = Inr \<lparr>ID = ''2'', Name = ''Bob'', Age = 5\<rparr>
   \<and> fst (serve (\<lambda>_. 0) \<lparr>session_err = None, store_err = None\<rparr> PUT_users_id
          \<lparr>Param_id = ''1'', Bind = Inr \<lparr>ID = ''2'', Name = ''Bob'', Age = 5\<rparr>\<rparr>
          (main \<lparr>table = [], calls = [], logged = []\<rparr>))
       = Some \<lparr>status = 200, body = Some (marshalUser \<lparr>ID = ''2'', Name = ''Bob'', Age = 5\<rparr>)\<rparr>
   \<and> table (state (snd (serve (\<lambda>_. 0) \<lparr>session_err = None, store_err = None\<rparr> PUT_users_id
          \<lparr>Param_id = ''1'', Bind = Inr \<lparr>ID = ''2'', Name = ''Bob'', Age = 5\<rparr>\<rparr>
          (main \<lparr>table = [], calls = [], logged = []\<rparr>))))
       = [(''1'', [(''id'', attrS ''1''), (''name'', attrS ''Bob''),
                   (''age'', attrN (Sprintf_d 5))])]"
  using updateUser_keyed_by_path_id
    [where srv = "main \<lparr>table = [], calls = [], logged = []\<rparr>"
       and e = "\<lparr>session_err = None, store_err = None\<rparr>"
       and c = "\<lparr>Param_id = ''1'', Bind = Inr \<lparr>ID = ''2'', Name = ''Bob'', Age = 5\<rparr>\<rparr>"
       and user = "\<lparr>ID = ''2'', Name = ''Bob'', Age = 5\<rparr>"
       and toInt = "\<lambda>_. 0" and other = "''9''"]
  by (simp add: main_def)

section \<open>Failure to construct the client\<close>

text \<open>
  C4, as stated: a failure to construct the session halts the process at startup, before
  any traffic is served. It does not: \<^verbatim>\<open>main\<close> never constructs the client, each
  handler does, so the failure meets a request. Here a first Delete is answered 204, and
  the session fails while the second request is handled.
\<close>

theorem session_failure_after_traffic:
  "fst (run (\<lambda>_. 0)
     [(\<lparr>session_err = None, store_err = None\<rparr>, DELETE_users_id,
         \<lparr>Param_id = ''1'', Bind = Inl ''''\<rparr>),
      (\<lparr>session_err = Some ''no region'', store_err = None\<rparr>, DELETE_users_id,
         \<lparr>Param_id = ''1'', Bind = Inl ''''\<rparr>)]
     (main \<lparr>table = [], calls = [], logged = []\<rparr>))
   = [Some \<lparr>status = 204, body = None\<rparr>, None]"
  by (simp add: server_defs main_def deleteUser_def DeleteItem_def)

text \<open>
  C4, amended: a failure to construct the session is fatal when it occurs, which is
  while a request is handled, on any of the five routes: the error is logged, the process
  exits without answering that request and without a store call, and no request is
  handled after it.
\<close>

theorem session_failure_fatal:
  assumes "alive srv" and "session_err e = Some err"
  shows "run toInt ((e, r, c) # rest) srv =
     (None # replicate (length rest) None,
      \<lparr>state = (state srv)
         \<lparr>logged := logged (state srv) @ [''Failed to create AWS session:'' @ err]\<rparr>,
       alive = False\<rparr>)"
  using assms by (simp add: serve_session_failure run_exited)

theorem session_failure_fatal_witness:
  "alive (main \<lparr>table = [], calls = [], logged = []\<rparr>)
   \<and> session_err \<lparr>session_err = Some ''no region'', store_err = None\<rparr> = Some ''no region''
   \<and> run (\<lambda>_. 0)
        [(\<lparr>session_err = Some ''no region'', store_err = None\<rparr>, GET_users,
            \<lparr>Param_id = '''', Bind = Inl ''''\<rparr>),
         (\<lparr>session_err = None, store_err = None\<rparr>, DELETE_users_id,
            \<lparr>Param_id = ''1'', Bind = Inl ''''\<rparr>)]
        (main \<lparr>table = [], calls = [], logged = []\<rparr>)
       = ([None, None],
          \<lparr>state = \<lparr>table = [], calls = [],
                     logged = [''Failed to create AWS session:no region'']\<rparr>,
           alive = False\<rparr>)"
  using session_failure_fatal
    [where srv = "main \<lparr>table = [], calls = [], logged = []\<rparr>"
       and e = "\<lparr>session_err = Some ''no region'', store_err = None\<rparr>"
       and err = "''no region''" and r = GET_users
       and c = "\<lparr>Param_id = '''', Bind = Inl ''''\<rparr>"
       and rest = "[(\<lparr>session_err = None, store_err = None\<rparr>, DELETE_users_id,
                     \<lparr>Param_id = ''1'', Bind = Inl ''''\<rparr>)]"
       and toInt = "\<lambda>_. 0"]
  by (simp add: main_def)

section \<open>Undecodable bodies\<close>



section \<open>The service writes user records only\<close>

text \<open>
  \<^verbatim>\<open>createUser\<close> puts items with all three attributes, and \<^verbatim>\<open>updateUser\<close> sets
  \<^verbatim>\<open>name\<close> and \<^verbatim>\<open>age\<close> on an item that has its key. So a table of user records
  stays one under every request, whatever the session and the store do: an item that
  lacks an attribute has been written by someone else.
\<close>

lemma set_update_subset: "set (AList.update k v al) \<subseteq> insert (k, v) (set al)"
  by (induction al) auto

lemma set_delete_subset: "set (AList.delete k al) \<subseteq> set al"
  by (auto simp: AList.delete_eq)

lemma lacks_created:
  "\<not> lacks [(''id'', attrS i), (''name'', attrS n), (''age'', attrN a)]"
  by (simp add: lacks_def attrS_def attrN_def)

lemma lacks_updated:
  assumes "\<not> lacks old \<or> old = [(''id'', attrS k)]"
  shows "\<not> lacks (setAttrs [(''name'', attrS n), (''age'', attrN a)] old)"
  using assms
  by (auto simp: lacks_def AList.update_conv' attrS_def attrN_def split: option.splits)

lemma list_all_update:
  "list_all P al \<Longrightarrow> P (k, v) \<Longrightarrow> list_all P (AList.update k v al)"
  using set_update_subset [of k v al] by (auto simp: list_all_iff)

lemma list_all_delete: "list_all P al \<Longrightarrow> list_all P (AList.delete k al)"
  using set_delete_subset [of k al] by (auto simp: list_all_iff)

lemma records_lookup:
  "records w \<Longrightarrow> map_of (table w) k = Some it \<Longrightarrow> \<not> lacks it"
  by (auto simp: records_def list_all_iff dest: map_of_SomeD)

lemma serve_state:
  "alive srv \<Longrightarrow> state (snd (serve toInt e r c srv)) = snd (routes toInt r e c (state srv))"
  by (auto simp: serve_def Recover_def split: prod.splits outcome.splits)

lemma getUsers_table: "table (snd (getUsers toInt e c w)) = table w"
  by (cases "session_err e"; cases "store_err e")
    (simp_all add: getUsers_def getDynamoDBClient_def Scan_def println_def Let_def
      split: option.splits)

lemma getUser_table: "table (snd (getUser toInt e c w)) = table w"
  by (cases "session_err e"; cases "store_err e")
    (simp_all add: getUser_def getDynamoDBClient_def GetItem_def keyOf_attrS println_def Let_def
      split: option.splits)

lemma createUser_records: "records w \<Longrightarrow> records (snd (createUser e c w))"
  by (cases "session_err e"; cases "store_err e"; cases "Bind c")
    (simp_all add: createUser_def getDynamoDBClient_def PutItem_def keyOf_attrS println_def
      Let_def records_def list_all_update lacks_created)

lemma updateUser_records:
  assumes "records w"
  shows "records (snd (updateUser e c w))"
proof -
  have "\<not> lacks (setAttrs [(''name'', attrS n), (''age'', attrN a)]
        (case map_of (table w) k of None \<Rightarrow> [(''id'', attrS k)] | Some it \<Rightarrow> it))" for n a k
    by (rule lacks_updated) (auto split: option.splits dest: records_lookup [OF assms])
  with assms show ?thesis
    by (cases "session_err e"; cases "store_err e"; cases "Bind c")
      (simp_all add: updateUser_def getDynamoDBClient_def UpdateItem_def keyOf_attrS
        println_def Let_def records_def list_all_update)
qed

lemma deleteUser_records: "records w \<Longrightarrow> records (snd (deleteUser e c w))"
  by (cases "session_err e"; cases "store_err e")
    (simp_all add: deleteUser_def getDynamoDBClient_def DeleteItem_def keyOf_attrS println_def
      Let_def records_def list_all_delete)

lemma serve_keeps_records:
  assumes "records (state srv)"
  shows "records (state (snd (serve toInt e r c srv)))"
proof (cases "alive srv")
  case False
  with assms show ?thesis by (simp add: serve_def)
next
  case True
  show ?thesis
    using assms getUsers_table [of toInt e c "state srv"] getUser_table [of toInt e c "state srv"]
    by (cases r)
      (simp_all add: serve_state [OF True] routes_def records_def createUser_records [unfolded records_def]
        updateUser_records [unfolded records_def] deleteUser_records [unfolded records_def])
qed

lemma run_keeps_records:
  "records (state srv) \<Longrightarrow> records (state (snd (run toInt reqs srv)))"
proof (induction reqs arbitrary: srv)
  case Nil
  then show ?case by simp
next
  case (Cons a reqs)
  obtain e r c where a: "a = (e, r, c)" by (cases a)
  from Cons.prems have "records (state (snd (serve toInt e r c srv)))"
    by (rule serve_keeps_records)
  from Cons.IH [OF this] show ?case
    by (auto simp: a split: prod.splits)
qed

text \<open>On a table of user records the struct literal of \<^verbatim>\<open>getUser\<close> does not panic.\<close>

lemma userOfItem_not_lacks: "\<not> lacks it \<Longrightarrow> \<exists>user. userOfItem toInt it = Some user"
  by (auto simp: lacks_def userOfItem_def deref_S_def deref_N_def split: option.splits)

lemma getUser_records_no_panic:
  assumes "records w"
  shows "fst (getUser toInt e c w) \<noteq> Panic"
proof (cases "map_of (table w) (Param_id c)")
  case None
  then show ?thesis
    by (cases "session_err e"; cases "store_err e")
      (simp_all add: getUser_def getDynamoDBClient_def GetItem_def keyOf_attrS println_def Let_def)
next
  case (Some it)
  from records_lookup [OF assms Some] obtain user where "userOfItem toInt it = Some user"
    using userOfItem_not_lacks by blast
  with Some show ?thesis
    by (cases "session_err e"; cases "store_err e")
      (simp_all add: getUser_def getDynamoDBClient_def GetItem_def keyOf_attrS println_def Let_def)
qed

section \<open>Get\<close>



section \<open>Delete\<close>

text \<open>
  C7: for every id and every table, with the client constructed and the delete call
  succeeding, Delete answers 204 with no body, whether or not the table holds a record
  under the id; the table is left without one; and a second Delete of the same id is
  answered 204 again.
\<close>

theorem deleteUser_twice:
  assumes "alive srv" and "session_err e1 = None" and "store_err e1 = None"
    and "session_err e2 = None" and "store_err e2 = None"
  shows "fst (serve toInt e1 DELETE_users_id c srv) = Some \<lparr>status = 204, body = None\<rparr>
       \<and> table (state (snd (serve toInt e1 DELETE_users_id c srv)))
           = AList.delete (Param_id c) (table (state srv))
       \<and> fst (run toInt [(e1, DELETE_users_id, c), (e2, DELETE_users_id, c)] srv)
           = [Some \<lparr>status = 204, body = None\<rparr>, Some \<lparr>status = 204, body = None\<rparr>]"
  using assms by (simp add: server_defs deleteUser_def DeleteItem_def)

theorem deleteUser_twice_witness:
  "alive (main \<lparr>table = [], calls = [], logged = []\<rparr>)
   \<and> session_err \<lparr>session_err = None, store_err = None\<rparr> = None
   \<and> store_err \<lparr>session_err = None, store_err = None\<rparr> = None
   \<and> fst (run (\<lambda>_. 0)
        [(\<lparr>session_err = None, store_err = None\<rparr>, DELETE_users_id,
            \<lparr>Param_id = ''1'', Bind = Inl ''''\<rparr>),
         (\<lparr>session_err = None, store_err = None\<rparr>, DELETE_users_id,
            \<lparr>Param_id = ''1'', Bind = Inl ''''\<rparr>)]
        (main \<lparr>table = [], calls = [], logged = []\<rparr>))
       = [Some \<lparr>status = 204, body = None\<rparr>, Some \<lparr>status = 204, body = None\<rparr>]"
  using deleteUser_twice
    [where srv = "main \<lparr>table = [], calls = [], logged = []\<rparr>"
       and ?e1.0 = "\<lparr>session_err = None, store_err = None\<rparr>"
       and ?e2.0 = "\<lparr>session_err = None, store_err = None\<rparr>"
       and c = "\<lparr>Param_id = ''1'', Bind = Inl ''''\<rparr>" and toInt = "\<lambda>_. 0"]
  by (simp add: main_def)

section \<open>Store failures\<close>

text \<open>
  C8, as stated: the message of the 500 response is uniform across the five operations.
  It is not: each handler has a message of its own. On the same store failure List
  answers \<^verbatim>\<open>Failed to retrieve users\<close> and Delete answers
  \<^verbatim>\<open>Failed to delete user\<close>.
\<close>

theorem store_failure_messages_differ:
  "fst (serve (\<lambda>_. 0) \<lparr>session_err = None, store_err = Some ''timeout''\<rparr> GET_users
          \<lparr>Param_id = '''', Bind = Inl ''''\<rparr> (main \<lparr>table = [], calls = [], logged = []\<rparr>))
     = Some \<lparr>status = 500,
             body = Some (JObject [(''message'', JString ''Failed to retrieve users'')])\<rparr>
   \<and> fst (serve (\<lambda>_. 0) \<lparr>session_err = None, store_err = Some ''timeout''\<rparr> DELETE_users_id
          \<lparr>Param_id = ''1'', Bind = Inl ''''\<rparr> (main \<lparr>table = [], calls = [], logged = []\<rparr>))
     = Some \<lparr>status = 500,
             body = Some (JObject [(''message'', JString ''Failed to delete user'')])\<rparr>
   \<and> ''Failed to retrieve users'' \<noteq> ''Failed to delete user''"
  by (simp add: server_defs main_def getUsers_def deleteUser_def Scan_def DeleteItem_def)

text \<open>
  C8, amended: on each of the five routes, with the client constructed (and, for Create
  and Update, the body decoded, so that the store is called), a store call that fails
  with any error is answered 500 with a message that is fixed for the route, whatever the
  error; the error's detail goes to the log, after that message, and not into the
  response.
\<close>

theorem store_failure_500:
  assumes "alive srv" and "session_err e = None" and "store_err e = Some err"
    and "Bind cb = Inr user"
  shows "fst (serve toInt e GET_users c srv) =
           Some \<lparr>status = 500,
                  body = Some (JObject [(''message'', JString ''Failed to retrieve users'')])\<rparr>
       \<and> logged (state (snd (serve toInt e GET_users c srv))) =
           logged (state srv) @ [''Failed to retrieve users: '' @ err]
       \<and> fst (serve toInt e GET_users_id c srv) =
           Some \<lparr>status = 500,
                  body = Some (JObject [(''message'', JString ''Failed to retrieve user'')])\<rparr>
       \<and> logged (state (snd (serve toInt e GET_users_id c srv))) =
           logged (state srv) @ [''Failed to retrieve user: '' @ err]
       \<and> fst (serve toInt e POST_users cb srv) =
           Some \<lparr>status = 500,
                  body = Some (JObject [(''message'', JString ''Failed to create user'')])\<rparr>
       \<and> logged (state (snd (serve toInt e POST_users cb srv))) =
           logged (state srv) @ [''Failed to create user: '' @ err]
       \<and> fst (serve toInt e PUT_users_id cb srv) =
           Some \<lparr>status = 500,
                  body = Some (JObject [(''message'', JString ''Failed to update user'')])\<rparr>
       \<and> logged (state (snd (serve toInt e PUT_users_id cb srv))) =
           logged (state srv) @ [''Failed to update user: '' @ err]
       \<and> fst (serve toInt e DELETE_users_id c srv) =
           Some \<lparr>status = 500,
                  body = Some (JObject [(''message'', JString ''Failed to delete user'')])\<rparr>
       \<and> logged (state (snd (serve toInt e DELETE_users_id c srv))) =
           logged (state srv) @ [''Failed to delete user: '' @ err]"
  using assms
  by (simp add: server_defs getUsers_def getUser_def createUser_def updateUser_def
      deleteUser_def Scan_def GetItem_def PutItem_def UpdateItem_def DeleteItem_def)

theorem store_failure_500_witness:
  "alive (main \<lparr>table = [], calls = [], logged = []\<rparr>)
   \<and> session_err \<lparr>session_err = None, store_err = Some ''timeout''\<rparr> = None
   \<and> store_err \<lparr>session_err = None, store_err = Some ''timeout''\<rparr> = Some ''timeout''
   \<and> Bind \<lparr>Param_id = ''1'', Bind = Inr \<lparr>ID = ''2'', Name = ''Bob'', Age = 5\<rparr>\<rparr>
        = Inr \<lparr>ID = ''2'', Name = ''Bob'', Age = 5\<rparr>
   \<and> fst (serve (\<lambda>_. 0) \<lparr>session_err = None, store_err = Some ''timeout''\<rparr> PUT_users_id
          \<lparr>Param_id = ''1'', Bind = Inr \<lparr>ID = ''2'', Name = ''Bob'', Age = 5\<rparr>\<rparr>
          (main \<lparr>table = [], calls = [], logged = []\<rparr>))
       = Some \<lparr>status = 500,
               body = Some (JObject [(''message'', JString ''Failed to update user'')])\<rparr>
   \<and> logged (state (snd (serve (\<lambda>_. 0) \<lparr>session_err = None, store_err = Some ''timeout''\<rparr>
          PUT_users_id
          \<lparr>Param_id = ''1'', Bind = Inr \<lparr>ID = ''2'', Name = ''Bob'', Age = 5\<rparr>\<rparr>
          (main \<lparr>table = [], calls = [], logged = []\<rparr>))))
       = [''Failed to update user: timeout'']"
  using store_failure_500
    [where srv = "main \<lparr>table = [], calls = [], logged = []\<rparr>"
       and e = "\<lparr>session_err = None, store_err = Some ''timeout''\<rparr>"
       and err = "''timeout''"
       and cb = "\<lparr>Param_id = ''1'', Bind = Inr \<lparr>ID = ''2'', Name = ''Bob'', Age = 5\<rparr>\<rparr>"
       and user = "\<lparr>ID = ''2'', Name = ''Bob'', Age = 5\<rparr>"
       and c = "\<lparr>Param_id = ''1'', Bind = Inl ''''\<rparr>" and toInt = "\<lambda>_. 0"]
  by (simp add: main_def)

section \<open>Update of an id without a record\<close>

text \<open>
  C9: for every Update with a decodable body on an id the table has no record for, with
  the client constructed and the store calls succeeding, the response is 200 (not 404);
  afterwards the table holds under that id an item with exactly the key \<^verbatim>\<open>id\<close> and
  the attributes \<^verbatim>\<open>name\<close> and \<^verbatim>\<open>age\<close>; and a following Get on that id is
  answered 200.
\<close>

theorem updateUser_creates_missing:
  assumes "alive srv" and "session_err e1 = None" and "store_err e1 = None"
    and "session_err e2 = None" and "store_err e2 = None"
    and "Bind c = Inr user" and "map_of (table (state srv)) (Param_id c) = None"
    and "Param_id c' = Param_id c"
  shows "fst (serve toInt e1 PUT_users_id c srv)
           = Some \<lparr>status = 200, body = Some (marshalUser user)\<rparr>
       \<and> map_of (table (state (snd (serve toInt e1 PUT_users_id c srv)))) (Param_id c)
           = Some [(''id'', attrS (Param_id c)), (''name'', attrS (Name user)),
                   (''age'', attrN (Sprintf_d (Age user)))]
       \<and> fst (serve toInt e2 GET_users_id c' (snd (serve toInt e1 PUT_users_id c srv)))
           = Some \<lparr>status = 200,
                   body = Some (marshalUser \<lparr>ID = Param_id c, Name = Name user,
                                             Age = toInt (Sprintf_d (Age user))\<rparr>)\<rparr>"
  using assms
  by (simp add: server_defs updateUser_def UpdateItem_def getUser_def GetItem_def
      AList.update_conv' userOfItem_record)

theorem updateUser_creates_missing_witness:
  "alive (main \<lparr>table = [], calls = [], logged = []\<rparr>)
   \<and> session_err \<lparr>session_err = None, store_err = None\<rparr> = None
   \<and> store_err \<lparr>session_err = None, store_err = None\<rparr> = None
   \<and> Bind \<lparr>Param_id = ''1'', Bind = Inr \<lparr>ID = ''2'', Name = ''Bob'', Age = 5\<rparr>\<rparr>
        = Inr \<lparr>ID = ''2'', Name = ''Bob'', Age = 5\<rparr>
   \<and> map_of (table (state (main \<lparr>table = [], calls = [], logged = []\<rparr>)))
        (Param_id \<lparr>Param_id = ''1'', Bind = Inr \<lparr>ID = ''2'', Name = ''Bob'', Age = 5\<rparr>\<rparr>) = None
   \<and> fst (serve (\<lambda>_. 0) \<lparr>session_err = None, store_err = None\<rparr> PUT_users_id
          \<lparr>Param_id = ''1'', Bind = Inr \<lparr>ID = ''2'', Name = ''Bob'', Age = 5\<rparr>\<rparr>
          (main \<lparr>table = [], calls = [], logged = []\<rparr>))
       = Some \<lparr>status = 200, body = Some (marshalUser \<lparr>ID = ''2'', Name = ''Bob'', Age = 5\<rparr>)\<rparr>
   \<and> fst (serve (\<lambda>_. 0) \<lparr>session_err = None, store_err = None\<rparr> GET_users_id
          \<lparr>Param_id = ''1'', Bind = Inl ''''\<rparr>
          (snd (serve (\<lambda>_. 0) \<lparr>session_err = None, store_err = None\<rparr> PUT_users_id
             \<lparr>Param_id = ''1'', Bind = Inr \<lparr>ID = ''2'', Name = ''Bob'', Age = 5\<rparr>\<rparr>
             (main \<lparr>table = [], calls = [], logged = []\<rparr>))))
       = Some \<lparr>status = 200, body = Some (marshalUser \<lparr>ID = ''1'', Name = ''Bob'', Age = 0\<rparr>)\<rparr>"
  using updateUser_creates_missing
    [where srv = "main \<lparr>table = [], calls = [], logged = []\<rparr>"
       and ?e1.0 = "\<lparr>session_err = None, store_err = None\<rparr>"
       and ?e2.0 = "\<lparr>session_err = None, store_err = None\<rparr>"
       and c = "\<lparr>Param_id = ''1'', Bind = Inr \<lparr>ID = ''2'', Name = ''Bob'', Age = 5\<rparr>\<rparr>"
       and c' = "\<lparr>Param_id = ''1'', Bind = Inl ''''\<rparr>"
       and user = "\<lparr>ID = ''2'', Name = ''Bob'', Age = 5\<rparr>" and toInt = "\<lambda>_. 0"]
  by (simp add: main_def)

section \<open>Items that lack an attribute\<close>

text \<open>
  C10: with the client constructed, when the lookup of Get returns an item that lacks
  \<^verbatim>\<open>id\<close>, \<^verbatim>\<open>name\<close> or \<^verbatim>\<open>age\<close> (absent, or not in string, string and number
  form), or the scan of List returns such an item among its items, the handler panics
  on the nil pointer (it checks nothing before dereferencing), and the recovery
  middleware answers 500 while the process stays alive.
\<close>

theorem nil_attribute_recovered:
  assumes "alive srv" and "session_err e = None" and "lacks it"
  shows "(fst (GetItem (DynamoDB (store_err e)) [(''id'', attrS (Param_id c))] (state srv))
            = Inr (Some it) \<longrightarrow>
          fst (getUser toInt e c (state srv)) = Panic
          \<and> fst (serve toInt e GET_users_id c srv) =
              Some \<lparr>status = 500,
                     body = Some (JObject [(''message'', JString ''Internal Server Error'')])\<rparr>
          \<and> alive (snd (serve toInt e GET_users_id c srv)))
       \<and> (fst (Scan (DynamoDB (store_err e)) (state srv)) = Inr items \<and> it \<in> set items \<longrightarrow>
          fst (getUsers toInt e c (state srv)) = Panic
          \<and> fst (serve toInt e GET_users c srv) =
              Some \<lparr>status = 500,
                     body = Some (JObject [(''message'', JString ''Internal Server Error'')])\<rparr>
          \<and> alive (snd (serve toInt e GET_users c srv)))"
  using assms
  by (auto simp: server_defs getUser_def getUsers_def userOfItem_lacks usersLoop_lacks
      split: prod.splits sum.splits option.splits)

theorem nil_attribute_recovered_witness:
  "alive (main \<lparr>table = [(''1'', [(''id'', attrS ''1''), (''name'', attrS ''Alice'')])],
                calls = [], logged = []\<rparr>)
   \<and> session_err \<lparr>session_err = None, store_err = None\<rparr> = None
   \<and> lacks [(''id'', attrS ''1''), (''name'', attrS ''Alice'')]
   \<and> fst (GetItem (DynamoDB (store_err \<lparr>session_err = None, store_err = None\<rparr>))
          [(''id'', attrS ''1'')]
          (state (main \<lparr>table = [(''1'', [(''id'', attrS ''1''), (''name'', attrS ''Alice'')])],
                       calls = [], logged = []\<rparr>)))
       = Inr (Some [(''id'', attrS ''1''), (''name'', attrS ''Alice'')])
   \<and> fst (Scan (DynamoDB (store_err \<lparr>session_err = None, store_err = None\<rparr>))
          (state (main \<lparr>table = [(''1'', [(''id'', attrS ''1''), (''name'', attrS ''Alice'')])],
                       calls = [], logged = []\<rparr>)))
       = Inr [[(''id'', attrS ''1''), (''name'', attrS ''Alice'')]]
   \<and> fst (serve (\<lambda>_. 0) \<lparr>session_err = None, store_err = None\<rparr> GET_users_id
          \<lparr>Param_id = ''1'', Bind = Inl ''''\<rparr>
          (main \<lparr>table = [(''1'', [(''id'', attrS ''1''), (''name'', attrS ''Alice'')])],
                calls = [], logged = []\<rparr>))
       = Some \<lparr>status = 500,
               body = Some (JObject [(''message'', JString ''Internal Server Error'')])\<rparr>
   \<and> alive (snd (serve (\<lambda>_. 0) \<lparr>session_err = None, store_err = None\<rparr> GET_users_id
          \<lparr>Param_id = ''1'', Bind = Inl ''''\<rparr>
          (main \<lparr>table = [(''1'', [(''id'', attrS ''1''), (''name'', attrS ''Alice'')])],
                calls = [], logged = []\<rparr>)))
   \<and> fst (serve (\<lambda>_. 0) \<lparr>session_err = None, store_err = None\<rparr> GET_users
          \<lparr>Param_id = ''1'', Bind = Inl ''''\<rparr>
          (main \<lparr>table = [(''1'', [(''id'', attrS ''1''), (''name'', attrS ''Alice'')])],
                calls = [], logged = []\<rparr>))
       = Some \<lparr>status = 500,
               body = Some (JObject [(''message'', JString ''Internal Server Error'')])\<rparr>
   \<and> alive (snd (serve (\<lambda>_. 0) \<lparr>session_err = None, store_err = None\<rparr> GET_users
          \<lparr>Param_id = ''1'', Bind = Inl ''''\<rparr>
          (main \<lparr>table = [(''1'', [(''id'', attrS ''1''), (''name'', attrS ''Alice'')])],
                calls = [], logged = []\<rparr>)))"
  using nil_attribute_recovered
    [where srv = "main \<lparr>table = [(''1'', [(''id'', attrS ''1''), (''name'', attrS ''Alice'')])],
                         calls = [], logged = []\<rparr>"
       and e = "\<lparr>session_err = None, store_err = None\<rparr>"
       and it = "[(''id'', attrS ''1''), (''name'', attrS ''Alice'')]"
       and items = "[[(''id'', attrS ''1''), (''name'', attrS ''Alice'')]]"
       and c = "\<lparr>Param_id = ''1'', Bind = Inl ''''\<rparr>" and toInt = "\<lambda>_. 0"]
  by (simp add: main_def lacks_def GetItem_def Scan_def keyOf_def attrS_def Let_def)

end
